theory Spec2Isabelle
  imports Complex_Main
begin

section \<open>Configuration and collaborator data\<close>

text \<open>
  The program keeps its arguments in module-level variables that \<open>main\<close> sets once
  from the command line (all of them parsed with \<open>type=int\<close>, so any integer, also a
  negative one, can arrive). The model passes them explicitly.
\<close>

record config =
  SILENCE_THRESHOLD :: int
  PADDING_LEFT :: int
  PADDING_RIGHT :: int

text \<open>
  The video is a moviepy object; the walk reads only its \<open>duration\<close> (in seconds) and
  asks it for subclips. A clip is recorded by the two bounds, in seconds, that the code
  hands to \<open>video.subclip\<close>. Python's \<open>/\<close> is true division; it is modelled by exact
  division on the reals, which agrees with the float result in every comparison made here
  as long as the millisecond values stay below \<open>2^52\<close>.
\<close>

record video =
  duration :: real

type_synonym clip = "real \<times> real"

text \<open>
  The audio buffer belongs to pydub. The model records which slices
  \<open>audio_segment[a:b]\<close> are concatenated, in order: \<open>(a, Some b)\<close> stands for
  \<open>audio_segment[a:b]\<close>, \<open>(a, None)\<close> for \<open>audio_segment[a:]\<close>, and the empty list for
  the empty segment \<open>audio_segment[:0]\<close>.
\<close>

type_synonym audio = "(int \<times> int option) list"

section \<open>The walk over the silent ranges\<close>

record walk =
  last_end :: int
  clips :: "clip list"
  adjusted_audio :: audio
  silence_amount :: int

definition walk_init :: walk where
  "walk_init = \<lparr>last_end = 0, clips = [], adjusted_audio = [], silence_amount = 0\<rparr>"

text \<open>
  One iteration of the \<open>for start, end in silent_ranges\<close> loop. The calls of
  \<open>debug_print\<close> write to the terminal when \<open>DEBUG\<close> is set and change nothing the
  function returns; they are left out.
\<close>

definition silence_step :: "config \<Rightarrow> bool \<Rightarrow> walk \<Rightarrow> int \<times> int \<Rightarrow> walk" where
  "silence_step cfg pretend st r =
     (case r of (start, end') \<Rightarrow>
        let end_clip = max (last_end st) (start - PADDING_LEFT cfg);
            st1 = (if real_of_int (last_end st) / 1000 < real_of_int end_clip / 1000 \<and> \<not> pretend
                   then st\<lparr>clips := clips st @
                               [(real_of_int (last_end st) / 1000, real_of_int end_clip / 1000)],
                           adjusted_audio := adjusted_audio st @
                               [(last_end st, Some (max (last_end st) (start - PADDING_LEFT cfg)))]\<rparr>
                   else st);
            silence_duration = end' - end_clip
        in if silence_duration > SILENCE_THRESHOLD cfg
           then st1\<lparr>last_end := end' - PADDING_RIGHT cfg,
                    silence_amount := silence_amount st1 + ((end' - PADDING_RIGHT cfg) - end_clip)\<rparr>
           else st1\<lparr>last_end := end_clip\<rparr>)"

primrec walk_silences :: "config \<Rightarrow> bool \<Rightarrow> walk \<Rightarrow> (int \<times> int) list \<Rightarrow> walk" where
  "walk_silences cfg pretend st [] = st"
| "walk_silences cfg pretend st (r # rs) = walk_silences cfg pretend (silence_step cfg pretend st r) rs"

definition iterate_silence_segments ::
    "config \<Rightarrow> (int \<times> int) list \<Rightarrow> video \<Rightarrow> bool \<Rightarrow> clip list \<times> audio \<times> int" where
  "iterate_silence_segments cfg silent_ranges vid pretend =
     (let st = walk_silences cfg pretend walk_init silent_ranges;
          st' = (if \<not> pretend
                 then st\<lparr>clips := clips st @ [(real_of_int (last_end st) / 1000, duration vid)],
                         adjusted_audio := adjusted_audio st @ [(last_end st, None)]\<rparr>
                 else st)
      in (clips st', adjusted_audio st', silence_amount st'))"


section \<open>Properties the specification asks of inputs and plans\<close>

text \<open>
  A silence list is ascending and non-overlapping from \<open>lo\<close> on: every interval has
  \<open>start \<le> end\<close>, the first starts at or after \<open>lo\<close>, and each next one starts at or after
  the end of the one before.
\<close>

fun ascending_ranges :: "int \<Rightarrow> (int \<times> int) list \<Rightarrow> bool" where
  "ascending_ranges lo [] = True"
| "ascending_ranges lo ((start, end') # rs) = (lo \<le> start \<and> start \<le> end' \<and> ascending_ranges end' rs)"

definition ends_within :: "int \<Rightarrow> (int \<times> int) list \<Rightarrow> bool" where
  "ends_within d rs = list_all (\<lambda>r. snd r \<le> d) rs"

definition non_negative_config :: "config \<Rightarrow> bool" where
  "non_negative_config cfg =
     (0 \<le> SILENCE_THRESHOLD cfg \<and> 0 \<le> PADDING_LEFT cfg \<and> 0 \<le> PADDING_RIGHT cfg)"

text \<open>
  The input the specification calls well formed for a media length of \<open>d\<close> milliseconds.
\<close>

definition well_formed_input :: "config \<Rightarrow> (int \<times> int) list \<Rightarrow> int \<Rightarrow> bool" where
  "well_formed_input cfg rs d =
     (non_negative_config cfg \<and> ascending_ranges 0 rs \<and> ends_within d rs)"

text \<open>
  Keep segments (clips, bounds in seconds) are acceptable for a media length of \<open>d\<close>
  seconds when they are pairwise non-overlapping and ascending, each of non-negative
  length, and each inside \<open>[0, d]\<close>.
\<close>

definition keep_segments_ok :: "real \<Rightarrow> clip list \<Rightarrow> bool" where
  "keep_segments_ok d cs =
     (sorted_wrt (\<lambda>c1 c2. snd c1 \<le> fst c2) cs \<and>
      list_all (\<lambda>c. 0 \<le> fst c \<and> fst c \<le> snd c \<and> snd c \<le> d) cs)"

text \<open>
  The state of the walk is acceptable for a media length of \<open>d\<close> milliseconds when
  \<open>last_end\<close> lies in \<open>[0, d]\<close> and the clips collected so far are acceptable keep
  segments that all end at or before \<open>last_end\<close>.
\<close>

definition walk_ok :: "int \<Rightarrow> walk \<Rightarrow> bool" where
  "walk_ok d st =
     (0 \<le> last_end st \<and> last_end st \<le> d \<and>
      keep_segments_ok (real_of_int (last_end st) / 1000) (clips st))"

section \<open>The orchestration\<close>

text \<open>
  \<open>edit_video_and_audio\<close> calls moviepy, pydub, the terminal and the file system. Each
  call either returns or raises; which one happens is given by the collaborators, and an
  exception is a value that the sequencing below passes on untouched, as Python does in
  the absence of a handler.

  The collaborators give what \<open>VideoFileClip(video_path)\<close> and \<open>silence.detect_silence\<close>
  return, the answer \<open>input(...).strip().upper()\<close> of the user, which calls raise
  (\<open>fails\<close>), and for which paths \<open>os.remove\<close> raises \<open>OSError\<close> (\<open>remove_fails\<close>). The
  world is the set of files that exist and the log of what the run did: \<open>Estimate\<close> for
  the two lines printed before the prompt, with the \<open>silence_amount\<close> they show,
  \<open>WroteVideo\<close> for \<open>write_videofile\<close> with the clips and the audio it was given,
  \<open>RemoveAttempt\<close> for a call of \<open>os.remove\<close>, and \<open>CleanupWarning\<close> for the message
  of the \<open>except OSError\<close> branch.
\<close>

datatype step =
    OpenVideo | DetectSilence | Prompt | Subclip | Concatenate | ExportAudio
  | OpenEditedAudio | SetAudio | WriteVideo




record collaborators =
  the_video :: video
  silent_ranges :: "(int \<times> int) list"
  user_response :: string
  fails :: "step \<Rightarrow> bool"
  remove_fails :: "string \<Rightarrow> bool"
















section \<open>One iteration, field by field\<close>

lemma seconds_less_iff: "real_of_int a / 1000 < real_of_int b / 1000 \<longleftrightarrow> a < b"
  by simp

lemma last_end_silence_step:
  "last_end (silence_step cfg pretend st (start, end')) =
     (if end' - max (last_end st) (start - PADDING_LEFT cfg) > SILENCE_THRESHOLD cfg
      then end' - PADDING_RIGHT cfg
      else max (last_end st) (start - PADDING_LEFT cfg))"
  by (simp add: silence_step_def Let_def)

lemma silence_amount_silence_step:
  "silence_amount (silence_step cfg pretend st (start, end')) =
     (if end' - max (last_end st) (start - PADDING_LEFT cfg) > SILENCE_THRESHOLD cfg
      then silence_amount st +
           ((end' - PADDING_RIGHT cfg) - max (last_end st) (start - PADDING_LEFT cfg))
      else silence_amount st)"
  by (simp add: silence_step_def Let_def)

lemma clips_silence_step:
  "clips (silence_step cfg pretend st (start, end')) =
     clips st @
     (if last_end st < max (last_end st) (start - PADDING_LEFT cfg) \<and> \<not> pretend
      then [(real_of_int (last_end st) / 1000,
             real_of_int (max (last_end st) (start - PADDING_LEFT cfg)) / 1000)]
      else [])"
  by (simp add: silence_step_def Let_def)

lemma adjusted_audio_silence_step:
  "adjusted_audio (silence_step cfg pretend st (start, end')) =
     adjusted_audio st @
     (if last_end st < max (last_end st) (start - PADDING_LEFT cfg) \<and> \<not> pretend
      then [(last_end st, Some (max (last_end st) (start - PADDING_LEFT cfg)))]
      else [])"
  by (simp add: silence_step_def Let_def)

lemmas silence_step_fields =
  last_end_silence_step silence_amount_silence_step clips_silence_step adjusted_audio_silence_step

text \<open>
  The position and the accumulated amount after a walk do not depend on the \<open>pretend\<close>
  flag, nor on the clips and audio collected so far.
\<close>

lemma walk_silences_pretend_irrelevant:
  "last_end st = last_end st' \<Longrightarrow> silence_amount st = silence_amount st' \<Longrightarrow>
   last_end (walk_silences cfg p st rs) = last_end (walk_silences cfg p' st' rs) \<and>
   silence_amount (walk_silences cfg p st rs) = silence_amount (walk_silences cfg p' st' rs)"
proof (induction rs arbitrary: st st')
  case Nil
  then show ?case by simp
next
  case (Cons r rs)
  obtain s e where r: "r = (s, e)" by (cases r)
  have "last_end (silence_step cfg p st r) = last_end (silence_step cfg p' st' r)"
    and "silence_amount (silence_step cfg p st r) = silence_amount (silence_step cfg p' st' r)"
    using Cons.prems by (simp_all add: r silence_step_fields)
  then show ?case
    using Cons.IH by simp
qed


section \<open>Worked examples of the walk\<close>

text \<open>
  C2. For the silence list \<open>[(1000, 2000)]\<close> with threshold 700, both paddings 250 and a
  media length of 3000 ms the specification expects the keep segments \<open>[0,750)\<close> and
  \<open>[1750,3000)\<close> and 500 ms of silence removed. The amount the walk returns there is not
  500.
\<close>

theorem single_long_silence_amount_is_not_500:
  "snd (snd (iterate_silence_segments
       \<lparr>SILENCE_THRESHOLD = 700, PADDING_LEFT = 250, PADDING_RIGHT = 250\<rparr>
       [(1000, 2000)] \<lparr>duration = 3000 / 1000\<rparr> False)) \<noteq> 500"
  by (simp add: iterate_silence_segments_def silence_step_def walk_init_def Let_def)

text \<open>
  C2, as the code has it. On that input the materializing walk returns the keep segments
  \<open>[0,750)\<close> and \<open>[1750,3000)\<close> (in seconds: \<open>(0, 0.75)\<close> and \<open>(1.75, 3)\<close>), the audio
  slices \<open>[0:750]\<close> and \<open>[1750:]\<close>, and 1000 ms of silence removed: the cut runs from 750
  to 1750.
\<close>

theorem single_long_silence_plan:
  "iterate_silence_segments
       \<lparr>SILENCE_THRESHOLD = 700, PADDING_LEFT = 250, PADDING_RIGHT = 250\<rparr>
       [(1000, 2000)] \<lparr>duration = 3000 / 1000\<rparr> False
   = ([(0 / 1000, 750 / 1000), (1750 / 1000, 3000 / 1000)],
      [(0, Some 750), (1750, None)],
      1000)"
  by (simp add: iterate_silence_segments_def silence_step_def walk_init_def Let_def)

text \<open>
  C8. For an empty silence list the materializing walk returns exactly one keep segment,
  from 0 to the duration of the video, the one audio slice \<open>[0:]\<close>, and no silence
  removed. For every silence list the materializing walk ends with the segment from the
  final \<open>last_end\<close> to the duration and with the audio slice \<open>[last_end:]\<close>, whatever
  their length.
\<close>

theorem empty_silence_list_plan:
  "iterate_silence_segments cfg [] vid False = ([(0, duration vid)], [(0, None)], 0) \<and>
   fst (iterate_silence_segments cfg rs vid False) =
     clips (walk_silences cfg False walk_init rs) @
     [(real_of_int (last_end (walk_silences cfg False walk_init rs)) / 1000, duration vid)] \<and>
   fst (snd (iterate_silence_segments cfg rs vid False)) =
     adjusted_audio (walk_silences cfg False walk_init rs) @
     [(last_end (walk_silences cfg False walk_init rs), None)]"
  by (simp add: iterate_silence_segments_def walk_init_def Let_def)



text \<open>
  C10. The amount of silence removed that the pretend pass returns is the amount the
  materializing pass returns on the same silence list, video and configuration.
\<close>

theorem pretend_amount_is_materialized_amount:
  "snd (snd (iterate_silence_segments cfg rs vid True)) =
   snd (snd (iterate_silence_segments cfg rs vid False))"
  using walk_silences_pretend_irrelevant [of walk_init walk_init cfg True rs False]
  by (simp add: iterate_silence_segments_def Let_def)


text \<open>
  C7. For a single silence interval whose candidate cut length \<open>end - cutEnd\<close> is at most
  the threshold, the specification expects exactly one keep segment \<open>[0, duration)\<close>. For
  the interval \<open>(1000, 1300)\<close> with threshold 700 and left padding 250 the candidate cut
  length is 550, and the materializing walk does not return the single segment
  \<open>[0, 3000)\<close>.
\<close>

theorem short_silence_is_not_one_segment:
  "(1300::int) - max 0 (1000 - 250) \<le> 700 \<and>
   fst (iterate_silence_segments
       \<lparr>SILENCE_THRESHOLD = 700, PADDING_LEFT = 250, PADDING_RIGHT = 250\<rparr>
       [(1000, 1300)] \<lparr>duration = 3000 / 1000\<rparr> False) \<noteq> [(0 / 1000, 3000 / 1000)]"
  by (simp add: iterate_silence_segments_def silence_step_def walk_init_def Let_def)

text \<open>
  C7, as the code has it. For a single silence interval \<open>(start, end)\<close> whose candidate cut
  length \<open>end - max 0 (start - PADDING_LEFT)\<close> is at most the threshold, nothing is cut and
  the amount of silence removed is 0. The kept media is returned as the segment from 0 to
  \<open>cutEnd = start - PADDING_LEFT\<close> when that is positive, followed by the final segment
  from \<open>cutEnd\<close> (or from 0) to the duration: two adjoining segments, and a single one
  only when \<open>start \<le> PADDING_LEFT\<close>.
\<close>

theorem short_silence_plan:
  "end' - max 0 (start - PADDING_LEFT cfg) \<le> SILENCE_THRESHOLD cfg \<Longrightarrow>
   iterate_silence_segments cfg [(start, end')] vid False =
     ((if 0 < start - PADDING_LEFT cfg
       then [(0, real_of_int (start - PADDING_LEFT cfg) / 1000)] else []) @
      [(real_of_int (max 0 (start - PADDING_LEFT cfg)) / 1000, duration vid)],
      (if 0 < start - PADDING_LEFT cfg then [(0, Some (start - PADDING_LEFT cfg))] else []) @
      [(max 0 (start - PADDING_LEFT cfg), None)],
      0)"
  by (simp add: iterate_silence_segments_def silence_step_def walk_init_def Let_def max_def)

theorem short_silence_plan_witness:
  "(1300::int) - max 0 (1000 - 250) \<le> 700 \<and>
   iterate_silence_segments
       \<lparr>SILENCE_THRESHOLD = 700, PADDING_LEFT = 250, PADDING_RIGHT = 250\<rparr>
       [(1000, 1300)] \<lparr>duration = 3000 / 1000\<rparr> False
   = ([(0, 750 / 1000), (750 / 1000, 3000 / 1000)], [(0, Some 750), (750, None)], 0)"
  using short_silence_plan
    [of 1300 1000 "\<lparr>SILENCE_THRESHOLD = 700, PADDING_LEFT = 250, PADDING_RIGHT = 250\<rparr>"
        "\<lparr>duration = 3000 / 1000\<rparr>"]
  by simp

section \<open>Malformed input\<close>



section \<open>Right padding larger than the silence it follows\<close>

text \<open>
  The loop bounds the left padding by \<open>max last_end (start - PADDING_LEFT)\<close>; the right
  padding is subtracted with no bound. As long as \<open>PADDING_RIGHT \<le> SILENCE_THRESHOLD + 1\<close>
  a silence that is cut is at least as long as the right padding, and the walk keeps its
  promises; the lemmas of this section show that.
\<close>


lemma keep_segments_ok_mono:
  "keep_segments_ok d cs \<Longrightarrow> d \<le> d' \<Longrightarrow> keep_segments_ok d' cs"
  by (auto simp: keep_segments_ok_def list_all_iff)

lemma keep_segments_ok_snoc:
  assumes "keep_segments_ok a cs" and "0 \<le> a" and "a \<le> b" and "b \<le> d"
  shows "keep_segments_ok d (cs @ [(a, b)])"
  using assms
  by (auto simp: keep_segments_ok_def list_all_iff sorted_wrt_append)

text \<open>A cut never moves \<open>last_end\<close> back when the right padding fits the threshold.\<close>

lemma last_end_silence_step_mono:
  assumes "PADDING_RIGHT cfg \<le> SILENCE_THRESHOLD cfg + 1"
  shows "last_end st \<le> last_end (silence_step cfg pretend st (start, end'))"
  using assms by (simp add: last_end_silence_step) arith

lemma silence_amount_silence_step_mono:
  assumes "PADDING_RIGHT cfg \<le> SILENCE_THRESHOLD cfg + 1"
  shows "silence_amount st \<le> silence_amount (silence_step cfg pretend st (start, end'))"
  using assms by (simp add: silence_amount_silence_step) arith

lemma silence_amount_walk_mono:
  assumes "PADDING_RIGHT cfg \<le> SILENCE_THRESHOLD cfg + 1"
  shows "silence_amount st \<le> silence_amount (walk_silences cfg pretend st rs)"
proof (induction rs arbitrary: st)
  case Nil
  show ?case by simp
next
  case (Cons r rs)
  obtain s e where r: "r = (s, e)" by (cases r)
  have "silence_amount st \<le> silence_amount (silence_step cfg pretend st r)"
    unfolding r by (rule silence_amount_silence_step_mono [OF assms])
  also have "\<dots> \<le> silence_amount (walk_silences cfg pretend (silence_step cfg pretend st r) rs)"
    by (rule Cons.IH)
  finally show ?case by simp
qed

lemma walk_ok_silence_step:
  assumes ok: "walk_ok d st"
    and range: "start \<le> end'" "end' \<le> d"
    and cfg: "0 \<le> PADDING_LEFT cfg" "0 \<le> PADDING_RIGHT cfg"
             "PADDING_RIGHT cfg \<le> SILENCE_THRESHOLD cfg + 1"
  shows "walk_ok d (silence_step cfg pretend st (start, end'))"
proof -
  let ?L = "last_end st"
  let ?c = "max ?L (start - PADDING_LEFT cfg)"
  let ?st' = "silence_step cfg pretend st (start, end')"
  have L: "0 \<le> ?L" "?L \<le> d" and segs: "keep_segments_ok (real_of_int ?L / 1000) (clips st)"
    using ok by (simp_all add: walk_ok_def)
  have c: "?L \<le> ?c" "?c \<le> d"
    using L range cfg by simp_all
  have L': "?c \<le> last_end ?st'" "last_end ?st' \<le> d"
    using c range cfg by (simp_all add: last_end_silence_step) arith
  have "keep_segments_ok (real_of_int ?c / 1000) (clips ?st')"
  proof (cases "?L < ?c \<and> \<not> pretend")
    case True
    have "keep_segments_ok (real_of_int ?c / 1000)
            (clips st @ [(real_of_int ?L / 1000, real_of_int ?c / 1000)])"
    proof (rule keep_segments_ok_snoc [OF segs])
      show "0 \<le> real_of_int ?L / 1000" using L by simp
      show "real_of_int ?L / 1000 \<le> real_of_int ?c / 1000" using c by simp
      show "real_of_int ?c / 1000 \<le> real_of_int ?c / 1000" by simp
    qed
    then show ?thesis
      using True by (simp add: clips_silence_step)
  next
    case False
    have "keep_segments_ok (real_of_int ?c / 1000) (clips st)"
      using c by (intro keep_segments_ok_mono [OF segs]) simp
    then show ?thesis
      using False by (auto simp add: clips_silence_step)
  qed
  then have "keep_segments_ok (real_of_int (last_end ?st') / 1000) (clips ?st')"
  proof (rule keep_segments_ok_mono)
    show "real_of_int ?c / 1000 \<le> real_of_int (last_end ?st') / 1000" using L' by simp
  qed
  moreover have "0 \<le> last_end ?st'"
    using L c L' by linarith
  ultimately show ?thesis
    using L' by (simp add: walk_ok_def)
qed

lemma walk_ok_walk_silences:
  assumes cfg: "0 \<le> PADDING_LEFT cfg" "0 \<le> PADDING_RIGHT cfg"
               "PADDING_RIGHT cfg \<le> SILENCE_THRESHOLD cfg + 1"
  shows "walk_ok d st \<Longrightarrow> ascending_ranges lo rs \<Longrightarrow> ends_within d rs \<Longrightarrow>
         walk_ok d (walk_silences cfg pretend st rs)"
proof (induction rs arbitrary: st lo)
  case Nil
  then show ?case by simp
next
  case (Cons r rs)
  obtain s e where r: "r = (s, e)" by (cases r)
  have range: "s \<le> e" "e \<le> d" and rest: "ascending_ranges e rs" "ends_within d rs"
    using Cons.prems by (simp_all add: r ends_within_def)
  have "walk_ok d (silence_step cfg pretend st r)"
    unfolding r using Cons.prems(1) range cfg by (rule walk_ok_silence_step)
  then show ?case
    using Cons.IH rest by simp
qed

text \<open>
  With a right padding of at most the threshold plus one, well-formed input gives keep
  segments that are ascending, non-overlapping, of non-negative length and inside
  \<open>[0, d]\<close>, and the amount of silence removed never decreases during the walk.
\<close>

lemma keep_segments_ok_if_right_padding_fits:
  assumes "well_formed_input cfg rs d" and "0 \<le> d"
    and "PADDING_RIGHT cfg \<le> SILENCE_THRESHOLD cfg + 1"
    and "duration vid = real_of_int d / 1000"
  shows "keep_segments_ok (real_of_int d / 1000) (fst (iterate_silence_segments cfg rs vid False))"
proof -
  let ?st = "walk_silences cfg False walk_init rs"
  have "walk_ok d walk_init"
    using assms(2) by (simp add: walk_ok_def walk_init_def keep_segments_ok_def)
  moreover have "0 \<le> PADDING_LEFT cfg" "0 \<le> PADDING_RIGHT cfg"
      "ascending_ranges 0 rs" "ends_within d rs"
    using assms(1) by (simp_all add: well_formed_input_def non_negative_config_def)
  ultimately have "walk_ok d ?st"
    using assms(3) walk_ok_walk_silences [of cfg d walk_init 0 rs False] by simp
  then have st: "0 \<le> last_end ?st" "last_end ?st \<le> d"
      "keep_segments_ok (real_of_int (last_end ?st) / 1000) (clips ?st)"
    by (simp_all add: walk_ok_def)
  have "keep_segments_ok (real_of_int d / 1000)
               (clips ?st @ [(real_of_int (last_end ?st) / 1000, real_of_int d / 1000)])"
  proof (rule keep_segments_ok_snoc [OF st(3)])
    show "0 \<le> real_of_int (last_end ?st) / 1000" using st(1) by simp
    show "real_of_int (last_end ?st) / 1000 \<le> real_of_int d / 1000" using st(2) by simp
    show "real_of_int d / 1000 \<le> real_of_int d / 1000" by simp
  qed
  then show ?thesis
    by (simp add: iterate_silence_segments_def Let_def assms(4))
qed

text \<open>
  C1. With a right padding of 1500 ms, a threshold of 700 ms and a left padding of 250 ms,
  every value non-negative, the silence \<open>(1000, 2000)\<close> in a media of 3000 ms is well-formed
  input. The walk emits the segment \<open>[0, 750)\<close>, then sets \<open>last_end\<close> to
  \<open>2000 - 1500 = 500\<close>, before the end of the segment it has just emitted, and closes with
  the segment \<open>[500, 3000)\<close>: the two keep segments overlap.
\<close>

theorem large_right_padding_segments_overlap:
  "well_formed_input \<lparr>SILENCE_THRESHOLD = 700, PADDING_LEFT = 250, PADDING_RIGHT = 1500\<rparr>
       [(1000, 2000)] 3000 \<and>
   fst (iterate_silence_segments
       \<lparr>SILENCE_THRESHOLD = 700, PADDING_LEFT = 250, PADDING_RIGHT = 1500\<rparr>
       [(1000, 2000)] \<lparr>duration = 3000 / 1000\<rparr> False)
     = [(0 / 1000, 750 / 1000), (500 / 1000, 3000 / 1000)] \<and>
   \<not> keep_segments_ok (3000 / 1000)
       (fst (iterate_silence_segments
          \<lparr>SILENCE_THRESHOLD = 700, PADDING_LEFT = 250, PADDING_RIGHT = 1500\<rparr>
          [(1000, 2000)] \<lparr>duration = 3000 / 1000\<rparr> False))"
  by (simp add: well_formed_input_def non_negative_config_def ends_within_def
        keep_segments_ok_def iterate_silence_segments_def silence_step_def walk_init_def Let_def)

text \<open>
  C4. On the same input the one iteration of the loop takes the amount of silence removed
  from 0 down to \<open>500 - 750 = -250\<close>, and that negative amount is what the walk returns.
\<close>

theorem large_right_padding_amount_decreases:
  "well_formed_input \<lparr>SILENCE_THRESHOLD = 700, PADDING_LEFT = 250, PADDING_RIGHT = 1500\<rparr>
       [(1000, 2000)] 3000 \<and>
   silence_amount (silence_step
       \<lparr>SILENCE_THRESHOLD = 700, PADDING_LEFT = 250, PADDING_RIGHT = 1500\<rparr> True
       walk_init (1000, 2000)) < silence_amount walk_init \<and>
   snd (snd (iterate_silence_segments
       \<lparr>SILENCE_THRESHOLD = 700, PADDING_LEFT = 250, PADDING_RIGHT = 1500\<rparr>
       [(1000, 2000)] \<lparr>duration = 3000 / 1000\<rparr> True)) = - 250"
  by (simp add: well_formed_input_def non_negative_config_def ends_within_def
        iterate_silence_segments_def silence_step_def walk_init_def Let_def)


section \<open>Raising the threshold\<close>

text \<open>
  Two walks over the same silence list, the second with a threshold at least as large.
  When the left padding is at most the right padding and the right padding fits the
  smaller threshold, both walks reach every silence \<open>(start, end)\<close> with the same
  \<open>end_clip = max 0 (start - PADDING_LEFT)\<close>, so each silence is judged on its own and the
  second walk cuts a subset of what the first one cuts.
\<close>

lemma threshold_step_simulation:
  assumes pads: "PADDING_LEFT cfg \<le> PADDING_RIGHT cfg"
                "PADDING_RIGHT cfg \<le> SILENCE_THRESHOLD cfg + 1"
                "SILENCE_THRESHOLD cfg \<le> t'"
    and range: "lo \<le> s" "s \<le> e"
    and st1: "0 \<le> last_end st1" "last_end st1 \<le> max 0 (lo - PADDING_LEFT cfg)"
    and st2: "0 \<le> last_end st2" "last_end st2 \<le> max 0 (lo - PADDING_LEFT cfg)"
  shows "0 \<le> last_end (silence_step cfg p1 st1 (s, e))"
    and "last_end (silence_step cfg p1 st1 (s, e)) \<le> max 0 (e - PADDING_LEFT cfg)"
    and "0 \<le> last_end (silence_step (cfg\<lparr>SILENCE_THRESHOLD := t'\<rparr>) p2 st2 (s, e))"
    and "last_end (silence_step (cfg\<lparr>SILENCE_THRESHOLD := t'\<rparr>) p2 st2 (s, e))
           \<le> max 0 (e - PADDING_LEFT cfg)"
    and "silence_amount (silence_step (cfg\<lparr>SILENCE_THRESHOLD := t'\<rparr>) p2 st2 (s, e))
           - silence_amount st2
         \<le> silence_amount (silence_step cfg p1 st1 (s, e)) - silence_amount st1"
proof -
  have c1: "max (last_end st1) (s - PADDING_LEFT cfg) = max 0 (s - PADDING_LEFT cfg)"
    using range st1 by arith
  have c2: "max (last_end st2) (s - PADDING_LEFT cfg) = max 0 (s - PADDING_LEFT cfg)"
    using range st2 by arith
  show "0 \<le> last_end (silence_step cfg p1 st1 (s, e))"
    using pads by (simp add: last_end_silence_step c1) arith
  show "last_end (silence_step cfg p1 st1 (s, e)) \<le> max 0 (e - PADDING_LEFT cfg)"
    using pads range by (simp add: last_end_silence_step c1) arith
  show "0 \<le> last_end (silence_step (cfg\<lparr>SILENCE_THRESHOLD := t'\<rparr>) p2 st2 (s, e))"
    using pads by (simp add: last_end_silence_step c2) arith
  show "last_end (silence_step (cfg\<lparr>SILENCE_THRESHOLD := t'\<rparr>) p2 st2 (s, e))
          \<le> max 0 (e - PADDING_LEFT cfg)"
    using pads range by (simp add: last_end_silence_step c2) arith
  show "silence_amount (silence_step (cfg\<lparr>SILENCE_THRESHOLD := t'\<rparr>) p2 st2 (s, e))
          - silence_amount st2
        \<le> silence_amount (silence_step cfg p1 st1 (s, e)) - silence_amount st1"
    using pads by (simp add: silence_amount_silence_step c1 c2) arith
qed

lemma threshold_walk_simulation:
  assumes pads: "PADDING_LEFT cfg \<le> PADDING_RIGHT cfg"
                "PADDING_RIGHT cfg \<le> SILENCE_THRESHOLD cfg + 1"
                "SILENCE_THRESHOLD cfg \<le> t'"
  shows "ascending_ranges lo rs \<Longrightarrow>
         0 \<le> last_end st1 \<Longrightarrow> last_end st1 \<le> max 0 (lo - PADDING_LEFT cfg) \<Longrightarrow>
         0 \<le> last_end st2 \<Longrightarrow> last_end st2 \<le> max 0 (lo - PADDING_LEFT cfg) \<Longrightarrow>
         silence_amount (walk_silences (cfg\<lparr>SILENCE_THRESHOLD := t'\<rparr>) p2 st2 rs)
           - silence_amount st2
         \<le> silence_amount (walk_silences cfg p1 st1 rs) - silence_amount st1"
proof (induction rs arbitrary: lo st1 st2)
  case Nil
  show ?case by simp
next
  case (Cons r rs)
  obtain s e where r: "r = (s, e)" by (cases r)
  let ?st1 = "silence_step cfg p1 st1 (s, e)"
  let ?st2 = "silence_step (cfg\<lparr>SILENCE_THRESHOLD := t'\<rparr>) p2 st2 (s, e)"
  have range: "lo \<le> s" "s \<le> e" and rest: "ascending_ranges e rs"
    using Cons.prems(1) by (simp_all add: r)
  note step = threshold_step_simulation [OF pads range Cons.prems(2,3) Cons.prems(4,5)]
  have inv: "0 \<le> last_end ?st1" "last_end ?st1 \<le> max 0 (e - PADDING_LEFT cfg)"
      "0 \<le> last_end ?st2" "last_end ?st2 \<le> max 0 (e - PADDING_LEFT cfg)"
    by (rule step(1), rule step(2), rule step(3), rule step(4))
  have amount: "silence_amount ?st2 - silence_amount st2
                  \<le> silence_amount ?st1 - silence_amount st1"
    by (rule step(5))
  have "silence_amount (walk_silences (cfg\<lparr>SILENCE_THRESHOLD := t'\<rparr>) p2 ?st2 rs)
          - silence_amount ?st2
        \<le> silence_amount (walk_silences cfg p1 ?st1 rs) - silence_amount ?st1"
    using rest inv by (rule Cons.IH)
  with amount show ?case
    by (simp add: r)
qed

text \<open>
  C3. The specification expects the amount of silence removed never to grow when the
  threshold grows. With a left padding of 1000 ms, a right padding of 250 ms and the
  ascending silence list \<open>[(0, 720), (800, 1100)]\<close>, raising the threshold from 700 to 750
  raises the amount from 470 to 850: at 700 the first silence is cut, which moves
  \<open>last_end\<close> to 470 and leaves the second silence with a candidate cut of only 630; at
  750 the first silence is left alone and the second is cut from 0 to 850.
\<close>

theorem raising_threshold_can_remove_more:
  "well_formed_input \<lparr>SILENCE_THRESHOLD = 700, PADDING_LEFT = 1000, PADDING_RIGHT = 250\<rparr>
       [(0, 720), (800, 1100)] 3000 \<and>
   well_formed_input \<lparr>SILENCE_THRESHOLD = 750, PADDING_LEFT = 1000, PADDING_RIGHT = 250\<rparr>
       [(0, 720), (800, 1100)] 3000 \<and>
   snd (snd (iterate_silence_segments
       \<lparr>SILENCE_THRESHOLD = 700, PADDING_LEFT = 1000, PADDING_RIGHT = 250\<rparr>
       [(0, 720), (800, 1100)] \<lparr>duration = 3000 / 1000\<rparr> True)) = 470 \<and>
   snd (snd (iterate_silence_segments
       \<lparr>SILENCE_THRESHOLD = 750, PADDING_LEFT = 1000, PADDING_RIGHT = 250\<rparr>
       [(0, 720), (800, 1100)] \<lparr>duration = 3000 / 1000\<rparr> True)) = 850"
  by (simp add: well_formed_input_def non_negative_config_def ends_within_def
        iterate_silence_segments_def silence_step_def walk_init_def Let_def)

text \<open>
  C3, as the code has it. For an ascending, non-overlapping silence list, when the left
  padding is at most the right padding and the right padding is at most the threshold
  plus one, replacing the threshold by a larger one does not increase the amount of
  silence removed that the walk returns, in either mode.
\<close>

theorem amount_antitone_in_threshold:
  assumes "ascending_ranges 0 rs"
    and "PADDING_LEFT cfg \<le> PADDING_RIGHT cfg"
    and "PADDING_RIGHT cfg \<le> SILENCE_THRESHOLD cfg + 1"
    and "SILENCE_THRESHOLD cfg \<le> t'"
  shows "snd (snd (iterate_silence_segments (cfg\<lparr>SILENCE_THRESHOLD := t'\<rparr>) rs vid pretend))
         \<le> snd (snd (iterate_silence_segments cfg rs vid pretend))"
proof -
  have "silence_amount (walk_silences (cfg\<lparr>SILENCE_THRESHOLD := t'\<rparr>) pretend walk_init rs)
          - silence_amount walk_init
        \<le> silence_amount (walk_silences cfg pretend walk_init rs) - silence_amount walk_init"
    using assms(2-4) assms(1)
    by (rule threshold_walk_simulation) (simp_all add: walk_init_def)
  then show ?thesis
    by (cases pretend) (simp_all add: iterate_silence_segments_def Let_def)
qed

theorem amount_antitone_in_threshold_witness:
  "ascending_ranges 0 [(1000, 2000), (3000, 5000)] \<and>
   (250::int) \<le> 250 \<and> (250::int) \<le> 700 + 1 \<and> (700::int) \<le> 2000 \<and>
   snd (snd (iterate_silence_segments
       \<lparr>SILENCE_THRESHOLD = 2000, PADDING_LEFT = 250, PADDING_RIGHT = 250\<rparr>
       [(1000, 2000), (3000, 5000)] \<lparr>duration = 6\<rparr> True))
   \<le> snd (snd (iterate_silence_segments
       \<lparr>SILENCE_THRESHOLD = 700, PADDING_LEFT = 250, PADDING_RIGHT = 250\<rparr>
       [(1000, 2000), (3000, 5000)] \<lparr>duration = 6\<rparr> True))"
  using amount_antitone_in_threshold
    [of "[(1000, 2000), (3000, 5000)]"
        "\<lparr>SILENCE_THRESHOLD = 700, PADDING_LEFT = 250, PADDING_RIGHT = 250\<rparr>"
        2000 "\<lparr>duration = 6\<rparr>" True]
  by simp


section \<open>Cleanup of the temporary files\<close>











end
